theory Spec2Isabelle
  imports Main "HOL-Library.Word"
begin

unbundle bit_operations_syntax

section \<open>Machine types\<close>

text \<open>
  The driver works on fixed-width integers. \<open>uint32_t\<close>, \<open>int32_t\<close>, \<open>IOFixed\<close> (a 16.16
  fixed-point number held in an \<open>int32_t\<close>) and \<open>kern_return_t\<close> are 32-bit words,
  \<open>uint64_t\<close> is a 64-bit word. Signed quantities are read with \<open>sint\<close>.
\<close>

type_synonym u32 = "32 word"
type_synonym u64 = "64 word"
type_synonym s32 = "32 word"
type_synonym IOFixed = "32 word"
type_synonym kern_return_t = "32 word"

section \<open>Constants of the host SDK\<close>

text \<open>
  Modelled from the spec: the usage-table constants, the element types, the event option
  flags and the return codes are declared in headers of the DriverKit SDK, which are not
  part of the repository. The spec calls them the pointer-axis domain, the button domain,
  the X axis, Y axis and wheel usage codes, the first and the 255th button usage code and
  the acceleration-disabled flag. The values below are those of the USB HID usage tables
  and of the IOKit return codes. No theorem depends on the numeric value of an option
  flag or of a failing return code.
\<close>

definition kIOReturnSuccess :: kern_return_t where
  "kIOReturnSuccess = 0"

definition kIOReturnError :: kern_return_t where
  "kIOReturnError = 0xE00002BC"

definition kIOReturnInvalid :: kern_return_t where
  "kIOReturnInvalid = 0xE0000001"

definition kHIDPage_GenericDesktop :: u32 where
  "kHIDPage_GenericDesktop = 0x01"

definition kHIDPage_Button :: u32 where
  "kHIDPage_Button = 0x09"

definition kHIDUsage_GD_X :: u32 where
  "kHIDUsage_GD_X = 0x30"

definition kHIDUsage_GD_Y :: u32 where
  "kHIDUsage_GD_Y = 0x31"

definition kHIDUsage_GD_Wheel :: u32 where
  "kHIDUsage_GD_Wheel = 0x38"

definition kHIDUsage_Button_1 :: u32 where
  "kHIDUsage_Button_1 = 0x01"

definition kHIDUsage_Button_255 :: u32 where
  "kHIDUsage_Button_255 = 0xFF"

definition kIOHIDPointerEventOptionsNoAcceleration :: u32 where
  "kIOHIDPointerEventOptionsNoAcceleration = 0x01"

definition kIOHIDScrollEventOptionsNoAcceleration :: u32 where
  "kIOHIDScrollEventOptionsNoAcceleration = 0x01"

datatype IOHIDElementType =
    kIOHIDElementTypeInput_Misc
  | kIOHIDElementTypeInput_Button
  | kIOHIDElementTypeInput_Axis
  | kIOHIDElementTypeInput_ScanCodes
  | kIOHIDElementTypeInput_NULL
  | kIOHIDElementTypeOutput
  | kIOHIDElementTypeFeature
  | kIOHIDElementTypeCollection

section \<open>HID elements and the driver's instance variables\<close>

text \<open>
  An \<open>IOHIDElement\<close> is read through its getters only; the record has one field per
  getter the driver calls. The host refreshes the value and the time stamp of an element
  before it delivers a report, so a list of elements is the snapshot the driver sees
  during one call.
\<close>

record IOHIDElement =
  getType :: IOHIDElementType
  getUsagePage :: u32
  getUsage :: u32
  getReportID :: u32
  getTimeStamp :: u64
  getValue :: s32

text \<open>
  An \<open>OSArray\<close> holds objects of any class, and the driver casts every entry with
  \<open>OSDynamicCast(IOHIDElement, ...)\<close>, which yields \<open>nullptr\<close> for an object of
  another class.
\<close>

datatype OSObject = HIDElement IOHIDElement | OtherObject

fun OSDynamicCast_IOHIDElement :: "OSObject \<Rightarrow> IOHIDElement option" where
  "OSDynamicCast_IOHIDElement (HIDElement e) = Some e"
| "OSDynamicCast_IOHIDElement OtherObject = None"

text \<open>
  \<open>DeliberateMouseDriver_IVars\<close>. The two host handles (\<open>interface\<close>,
  \<open>reportAvailableAction\<close>) carry no data the classifier or the interpreter reads and
  are left out. \<open>buttonState\<close> is a \<open>uint32_t\<close>; the value \<open>None\<close> stands for the
  indeterminate result of a shift whose count is not less than the width of its operand
  (see \<open>shl_int\<close>).
\<close>

record IVars =
  mouseElements :: "OSObject list"
  buttonState :: "u32 option"

text \<open>\<open>init\<close>: \<open>IONewZero\<close> clears the structure and \<open>OSArray::withCapacity\<close> gives an
  empty array.\<close>

definition init_ivars :: IVars where
  "init_ivars = \<lparr>mouseElements = [], buttonState = Some 0\<rparr>"

section \<open>The classifier: \<open>parseMouseElements\<close>\<close>

text \<open>
  The body of the loop up to the final test: the cast, the fast fail on collections and
  on usage 0, and the two nested switches that set the local flag \<open>isMouseElement\<close>.
\<close>

definition isMouseElement :: "OSObject \<Rightarrow> bool" where
  "isMouseElement obj =
     (case OSDynamicCast_IOHIDElement obj of
        None \<Rightarrow> False
      | Some deviceElement \<Rightarrow>
          (let type = getType deviceElement;
               usagePage = getUsagePage deviceElement;
               usage = getUsage deviceElement
           in if type = kIOHIDElementTypeCollection \<or> usage = 0 then False
              else if usagePage = kHIDPage_GenericDesktop then
                (if usage = kHIDUsage_GD_X \<or> usage = kHIDUsage_GD_Y
                    \<or> usage = kHIDUsage_GD_Wheel then True else False)
              else if usagePage = kHIDPage_Button then True
              else False))"

text \<open>
  The loop over \<open>deviceElements\<close>, threading the array \<open>ivars->mouseElements\<close> (to which
  \<open>setObject\<close> appends) and the flag \<open>foundMouseElements\<close>. The driver ignores the
  result of \<open>setObject\<close>; the model takes the append to succeed.
\<close>

fun parseMouseElements_loop ::
  "OSObject list \<Rightarrow> OSObject list \<times> bool \<Rightarrow> OSObject list \<times> bool" where
  "parseMouseElements_loop [] (elems, foundMouseElements) = (elems, foundMouseElements)"
| "parseMouseElements_loop (obj # rest) (elems, foundMouseElements) =
     (if isMouseElement obj
      then parseMouseElements_loop rest (elems @ [obj], True)
      else parseMouseElements_loop rest (elems, foundMouseElements))"

definition parseMouseElements :: "IVars \<Rightarrow> OSObject list \<Rightarrow> IVars \<times> bool" where
  "parseMouseElements ivars deviceElements =
     (let (elems, foundMouseElements) =
            parseMouseElements_loop deviceElements (mouseElements ivars, False)
      in (ivars\<lparr>mouseElements := elems\<rparr>, foundMouseElements))"

text \<open>The part of the stored array that one call of \<open>parseMouseElements\<close> added: the
  classified set of that call.\<close>

definition classified :: "IVars \<Rightarrow> OSObject list \<Rightarrow> OSObject list" where
  "classified ivars deviceElements =
     drop (length (mouseElements ivars))
       (mouseElements (fst (parseMouseElements ivars deviceElements)))"

section \<open>Device attach: \<open>Start_Impl\<close>\<close>

text \<open>
  \<open>Start_Impl\<close> calls into the host. The outcome of each host call is an input of the
  model, and the calls made are returned as a trace, so that what the function goes on
  to do can be stated.
\<close>

record StartEnv =
  superStart_ret :: kern_return_t
  createAction_ret :: kern_return_t
  provider_is_interface :: bool
  open_ret :: kern_return_t
  getElements_ret :: "OSObject list option"
  registerService_ret :: kern_return_t

datatype host_call =
    CallSuperStart
  | CallCreateActionReportAvailable
  | CallOpen
  | CallGetElements
  | CallRegisterService
  | CallStop

definition Start_Impl :: "IVars \<Rightarrow> StartEnv \<Rightarrow> IVars \<times> kern_return_t \<times> host_call list" where
  "Start_Impl ivars env =
     (if superStart_ret env \<noteq> kIOReturnSuccess then
        (ivars, superStart_ret env, [CallSuperStart, CallStop])
      else if createAction_ret env \<noteq> kIOReturnSuccess then
        (ivars, createAction_ret env,
         [CallSuperStart, CallCreateActionReportAvailable, CallStop])
      else if \<not> provider_is_interface env then
        (ivars, kIOReturnError,
         [CallSuperStart, CallCreateActionReportAvailable, CallStop])
      else if open_ret env \<noteq> kIOReturnSuccess then
        (ivars, open_ret env,
         [CallSuperStart, CallCreateActionReportAvailable, CallOpen, CallStop])
      else
        (case getElements_ret env of
           None \<Rightarrow>
             (ivars, kIOReturnInvalid,
              [CallSuperStart, CallCreateActionReportAvailable, CallOpen, CallGetElements,
               CallStop])
         | Some deviceElements \<Rightarrow>
             (let (ivars', result) = parseMouseElements ivars deviceElements
              in if result = False then
                   (ivars', kIOReturnInvalid,
                    [CallSuperStart, CallCreateActionReportAvailable, CallOpen,
                     CallGetElements, CallStop])
                 else if registerService_ret env \<noteq> kIOReturnSuccess then
                   (ivars', registerService_ret env,
                    [CallSuperStart, CallCreateActionReportAvailable, CallOpen,
                     CallGetElements, CallRegisterService, CallStop])
                 else
                   (ivars', kIOReturnSuccess,
                    [CallSuperStart, CallCreateActionReportAvailable, CallOpen,
                     CallGetElements, CallRegisterService]))))"

section \<open>The report interpreter: \<open>handleMouseReport\<close>\<close>

text \<open>
  \<open>1 << index\<close> with an \<open>int\<close> on the left and a \<open>uint32_t\<close> count. C++ defines the
  result only for a count below the width of the left operand, 32; any other count has
  no defined result, which is the value \<open>None\<close>. For a count below 32 the bits shifted
  out of the 32-bit value are dropped, as C++20 defines the shift of a signed value and
  as the compiler implements it.
\<close>

definition shl_int :: "s32 \<Rightarrow> u32 \<Rightarrow> s32 option" where
  "shl_int a n = (if n < 32 then Some (push_bit (unat n) a) else None)"

text \<open>
  \<open>setButtonState\<close> updates the referenced \<open>buttonState\<close> and returns it; the model
  returns the new value. An indeterminate mask, or an indeterminate prior state, gives
  an indeterminate state.
\<close>

definition setButtonState :: "u32 option \<Rightarrow> u32 \<Rightarrow> u32 \<Rightarrow> u32 option" where
  "setButtonState buttonState_ref index val =
     (case shl_int 1 index of
        None \<Rightarrow> None
      | Some bitmask \<Rightarrow>
          (case buttonState_ref of
             None \<Rightarrow> None
           | Some b \<Rightarrow> if val = 0 then Some (b AND NOT bitmask) else Some (b OR bitmask)))"

text \<open>
  Modelled from the spec: \<open>IOFixedMultiply\<close> is an inline function of the SDK, not of
  the repository; the spec calls it the fixed-point product of two 16.16 numbers. It
  widens both factors to 64 bits with their sign, multiplies, shifts right
  arithmetically by 16 and truncates to 32 bits.
\<close>

definition IOFixedMultiply :: "IOFixed \<Rightarrow> IOFixed \<Rightarrow> IOFixed" where
  "IOFixedMultiply a b =
     ucast (signed_drop_bit 16 ((scast a :: 64 word) * (scast b :: 64 word)))"

text \<open>The locals of \<open>handleMouseReport\<close>.\<close>

record ReportLocals =
  dX :: IOFixed
  dY :: IOFixed
  scrollVert :: IOFixed

text \<open>
  One iteration of the loop over \<open>ivars->mouseElements\<close>: the cast, the two guards on
  report ID and time stamp, and the switch on usage page and usage. The constant shifts
  by 15 and 16 are below the width, so they are plain left shifts of the 32-bit value
  (\<open>push_bit\<close> on a word drops the bits shifted out). The state of the loop is the three
  locals and \<open>ivars->buttonState\<close>; the array is not changed while it is read.
\<close>

definition handleMouseReport_step ::
  "u64 \<Rightarrow> u32 \<Rightarrow> ReportLocals \<times> u32 option \<Rightarrow> OSObject \<Rightarrow> ReportLocals \<times> u32 option" where
  "handleMouseReport_step timestamp reportID st obj =
     (let (loc, bs) = st in
      case OSDynamicCast_IOHIDElement obj of
        None \<Rightarrow> (loc, bs)
      | Some element \<Rightarrow>
          if reportID \<noteq> getReportID element then (loc, bs)
          else if getTimeStamp element \<noteq> timestamp then (loc, bs)
          else
            (let usagePage = getUsagePage element;
                 usage = getUsage element;
                 val = getValue element
             in if usagePage = kHIDPage_GenericDesktop then
                  (if usage = kHIDUsage_GD_X then (loc\<lparr>dX := push_bit 15 val\<rparr>, bs)
                   else if usage = kHIDUsage_GD_Y then (loc\<lparr>dY := push_bit 15 val\<rparr>, bs)
                   else if usage = kHIDUsage_GD_Wheel then
                     (loc\<lparr>scrollVert :=
                        IOFixedMultiply (push_bit 16 val) (push_bit 16 (- 3))\<rparr>, bs)
                   else (loc, bs))
                else if usagePage = kHIDPage_Button then
                  (if usage \<ge> kHIDUsage_Button_1 \<and> usage \<le> kHIDUsage_Button_255
                   then (loc, setButtonState bs (usage - kHIDUsage_Button_1) val)
                   else (loc, bs))
                else (loc, bs)))"

fun handleMouseReport_loop ::
  "u64 \<Rightarrow> u32 \<Rightarrow> OSObject list \<Rightarrow> ReportLocals \<times> u32 option \<Rightarrow> ReportLocals \<times> u32 option" where
  "handleMouseReport_loop timestamp reportID [] st = st"
| "handleMouseReport_loop timestamp reportID (obj # rest) st =
     handleMouseReport_loop timestamp reportID rest
       (handleMouseReport_step timestamp reportID st obj)"

text \<open>The two events the driver hands to the host, with the arguments of
  \<open>dispatchRelativePointerEvent\<close> and \<open>dispatchRelativeScrollWheelEvent\<close> in their
  order.\<close>

record PointerEvent =
  p_timeStamp :: u64
  p_dx :: IOFixed
  p_dy :: IOFixed
  p_buttonState :: "u32 option"
  p_options :: u32
  p_accelerate :: bool

record ScrollEvent =
  s_timeStamp :: u64
  s_dy :: IOFixed
  s_dx :: IOFixed
  s_dz :: IOFixed
  s_options :: u32
  s_accelerate :: bool

datatype dispatched =
    RelativePointerEvent PointerEvent
  | RelativeScrollWheelEvent ScrollEvent

definition handleMouseReport :: "IVars \<Rightarrow> u64 \<Rightarrow> u32 \<Rightarrow> IVars \<times> dispatched list" where
  "handleMouseReport ivars timestamp reportID =
     (let (loc, bs) =
            handleMouseReport_loop timestamp reportID (mouseElements ivars)
              (\<lparr>dX = 0, dY = 0, scrollVert = 0\<rparr>, buttonState ivars)
      in (ivars\<lparr>buttonState := bs\<rparr>,
          [RelativePointerEvent
             \<lparr>p_timeStamp = timestamp, p_dx = dX loc, p_dy = dY loc, p_buttonState = bs,
              p_options = kIOHIDPointerEventOptionsNoAcceleration, p_accelerate = False\<rparr>,
           RelativeScrollWheelEvent
             \<lparr>s_timeStamp = timestamp, s_dy = scrollVert loc, s_dx = 0, s_dz = 0,
              s_options = kIOHIDScrollEventOptionsNoAcceleration, s_accelerate = False\<rparr>]))"

text \<open>\<open>handleReport\<close> passes the time stamp and the report ID on.\<close>

definition handleReport :: "IVars \<Rightarrow> u64 \<Rightarrow> u32 \<Rightarrow> IVars \<times> dispatched list" where
  "handleReport ivars timestamp reportID = handleMouseReport ivars timestamp reportID"

section \<open>Example inputs\<close>

text \<open>An element given by its six getters, and a small device: a foreign object, a
  collection, a button far beyond the 255th, the three axes the driver reads, a Z axis
  and a keyboard key.\<close>

definition element ::
  "IOHIDElementType \<Rightarrow> u32 \<Rightarrow> u32 \<Rightarrow> u32 \<Rightarrow> u64 \<Rightarrow> s32 \<Rightarrow> IOHIDElement" where
  "element t page usage rid ts v =
     \<lparr>getType = t, getUsagePage = page, getUsage = usage, getReportID = rid,
      getTimeStamp = ts, getValue = v\<rparr>"

definition example_device :: "OSObject list" where
  "example_device =
     [OtherObject,
      HIDElement (element kIOHIDElementTypeCollection 0x01 0x02 0 0 0),
      HIDElement (element kIOHIDElementTypeInput_Button 0x09 700 1 0 0),
      HIDElement (element kIOHIDElementTypeInput_Misc 0x01 0x30 1 0 0),
      HIDElement (element kIOHIDElementTypeInput_Misc 0x01 0x31 1 0 0),
      HIDElement (element kIOHIDElementTypeInput_Misc 0x01 0x38 1 0 0),
      HIDElement (element kIOHIDElementTypeInput_Misc 0x01 0x32 1 0 0),
      HIDElement (element kIOHIDElementTypeInput_Button 0x07 0x04 1 0 0)]"

definition example_env :: "OSObject list \<Rightarrow> StartEnv" where
  "example_env deviceElements =
     \<lparr>superStart_ret = 0, createAction_ret = 0, provider_is_interface = True,
      open_ret = 0, getElements_ret = Some deviceElements, registerService_ret = 0\<rparr>"

section \<open>What the classifier stores\<close>

lemma parseMouseElements_loop_eq:
  "parseMouseElements_loop els (ms, f) =
     (ms @ filter isMouseElement els, f \<or> (\<exists>obj \<in> set els. isMouseElement obj))"
  by (induction els arbitrary: ms f) auto

lemma parseMouseElements_eq:
  "parseMouseElements iv els =
     (iv\<lparr>mouseElements := mouseElements iv @ filter isMouseElement els\<rparr>,
      \<exists>obj \<in> set els. isMouseElement obj)"
  by (simp add: parseMouseElements_def parseMouseElements_loop_eq)

lemma classified_eq: "classified iv els = filter isMouseElement els"
  by (simp add: classified_def parseMouseElements_eq)

text \<open>The stored array is the array before the call followed by the classified set; from
  the state \<open>init\<close> leaves, it is the classified set.\<close>

lemma mouseElements_parseMouseElements:
  "mouseElements (fst (parseMouseElements iv els)) = mouseElements iv @ classified iv els"
  by (simp add: classified_eq parseMouseElements_eq)

lemma mouseElements_after_init:
  "mouseElements (fst (parseMouseElements init_ivars els)) = classified init_ivars els"
  by (simp add: mouseElements_parseMouseElements init_ivars_def)

lemma isMouseElement_HIDElement:
  "isMouseElement (HIDElement e) \<longleftrightarrow>
     getType e \<noteq> kIOHIDElementTypeCollection \<and> getUsage e \<noteq> 0 \<and>
     (getUsagePage e = kHIDPage_Button \<or>
      getUsagePage e = kHIDPage_GenericDesktop \<and>
      (getUsage e = kHIDUsage_GD_X \<or> getUsage e = kHIDUsage_GD_Y
       \<or> getUsage e = kHIDUsage_GD_Wheel))"
  by (auto simp: isMouseElement_def Let_def kHIDPage_Button_def kHIDPage_GenericDesktop_def)

lemma isMouseElement_OtherObject: "\<not> isMouseElement OtherObject"
  by (simp add: isMouseElement_def)

lemma classified_example_device:
  "classified init_ivars example_device =
     [HIDElement (element kIOHIDElementTypeInput_Button 0x09 700 1 0 0),
      HIDElement (element kIOHIDElementTypeInput_Misc 0x01 0x30 1 0 0),
      HIDElement (element kIOHIDElementTypeInput_Misc 0x01 0x31 1 0 0),
      HIDElement (element kIOHIDElementTypeInput_Misc 0x01 0x38 1 0 0)]"
  by (simp add: classified_eq example_device_def isMouseElement_HIDElement
      isMouseElement_OtherObject element_def kHIDPage_Button_def kHIDPage_GenericDesktop_def
      kHIDUsage_GD_X_def kHIDUsage_GD_Y_def kHIDUsage_GD_Wheel_def)

section \<open>Claims about the classifier\<close>

text \<open>
  C3. A channel of the device that is no collection and has a nonzero usage code is
  classified whenever its usage page is the button page, whatever its usage code; on the
  generic desktop page it is classified exactly when its usage code is X, Y or wheel; on
  any other page it is not classified.
\<close>

theorem classifier_acceptance:
  assumes "HIDElement e \<in> set deviceElements"
    and "getType e \<noteq> kIOHIDElementTypeCollection"
    and "getUsage e \<noteq> 0"
  shows "(getUsagePage e = kHIDPage_Button \<longrightarrow>
            HIDElement e \<in> set (classified ivars deviceElements))
       \<and> (getUsagePage e = kHIDPage_GenericDesktop \<longrightarrow>
            (HIDElement e \<in> set (classified ivars deviceElements) \<longleftrightarrow>
             getUsage e = kHIDUsage_GD_X \<or> getUsage e = kHIDUsage_GD_Y
             \<or> getUsage e = kHIDUsage_GD_Wheel))
       \<and> (getUsagePage e \<noteq> kHIDPage_Button \<and> getUsagePage e \<noteq> kHIDPage_GenericDesktop \<longrightarrow>
            HIDElement e \<notin> set (classified ivars deviceElements))"
  using assms
  by (auto simp: classified_eq isMouseElement_HIDElement kHIDPage_Button_def
      kHIDPage_GenericDesktop_def)

theorem classifier_acceptance_witness:
  "HIDElement (element kIOHIDElementTypeInput_Button 0x09 700 1 0 0) \<in> set example_device
   \<and> getType (element kIOHIDElementTypeInput_Button 0x09 700 1 0 0)
       \<noteq> kIOHIDElementTypeCollection
   \<and> getUsage (element kIOHIDElementTypeInput_Button 0x09 700 1 0 0) \<noteq> 0
   \<and> getUsagePage (element kIOHIDElementTypeInput_Button 0x09 700 1 0 0) = kHIDPage_Button
   \<and> HIDElement (element kIOHIDElementTypeInput_Button 0x09 700 1 0 0)
       \<in> set (classified init_ivars example_device)"
  using classifier_acceptance
    [of "element kIOHIDElementTypeInput_Button 0x09 700 1 0 0" example_device init_ivars]
  by (simp add: example_device_def element_def kHIDPage_Button_def)

text \<open>
  C4. Whatever the device declares, every member of the classified set is an element
  that is no collection and whose usage code is not 0.
\<close>

theorem classifier_purity:
  assumes "obj \<in> set (classified ivars deviceElements)"
  shows "\<exists>e. obj = HIDElement e \<and> getType e \<noteq> kIOHIDElementTypeCollection \<and> getUsage e \<noteq> 0"
proof (cases obj)
  case (HIDElement e)
  with assms show ?thesis
    by (simp add: classified_eq isMouseElement_HIDElement)
next
  case OtherObject
  with assms show ?thesis
    by (simp add: classified_eq isMouseElement_OtherObject)
qed

theorem classifier_purity_witness:
  "HIDElement (element kIOHIDElementTypeInput_Misc 0x01 0x38 1 0 0)
     \<in> set (classified init_ivars example_device)
   \<and> (\<exists>e. HIDElement (element kIOHIDElementTypeInput_Misc 0x01 0x38 1 0 0) = HIDElement e
         \<and> getType e \<noteq> kIOHIDElementTypeCollection \<and> getUsage e \<noteq> 0)"
proof -
  have m: "HIDElement (element kIOHIDElementTypeInput_Misc 0x01 0x38 1 0 0)
     \<in> set (classified init_ivars example_device)"
    by (simp add: classified_example_device)
  from m classifier_purity [OF m] show ?thesis by blast
qed

text \<open>
  C7. \<open>parseMouseElements\<close> returns true exactly when its call classified at least one
  channel. When the device's channels are delivered and none of them is classified,
  \<open>Start_Impl\<close> does not return success, never calls \<open>RegisterService\<close> and ends with
  \<open>Stop\<close>; when the host calls before classification succeeded, the code returned is
  \<open>kIOReturnInvalid\<close>.
\<close>

theorem attach_failure:
  "snd (parseMouseElements ivars deviceElements) = (classified ivars deviceElements \<noteq> [])
   \<and> (getElements_ret env = Some deviceElements \<and> classified ivars deviceElements = [] \<longrightarrow>
        fst (snd (Start_Impl ivars env)) \<noteq> kIOReturnSuccess
        \<and> CallRegisterService \<notin> set (snd (snd (Start_Impl ivars env)))
        \<and> last (snd (snd (Start_Impl ivars env))) = CallStop
        \<and> (superStart_ret env = kIOReturnSuccess \<and> createAction_ret env = kIOReturnSuccess
             \<and> provider_is_interface env \<and> open_ret env = kIOReturnSuccess \<longrightarrow>
            fst (snd (Start_Impl ivars env)) = kIOReturnInvalid))"
proof -
  have found:
    "snd (parseMouseElements ivars deviceElements) = (classified ivars deviceElements \<noteq> [])"
    by (simp add: parseMouseElements_eq classified_eq filter_empty_conv)
  have inv: "kIOReturnInvalid \<noteq> kIOReturnSuccess"
    by (simp add: kIOReturnInvalid_def kIOReturnSuccess_def)
  have err: "kIOReturnError \<noteq> kIOReturnSuccess"
    by (simp add: kIOReturnError_def kIOReturnSuccess_def)
  have start: "fst (snd (Start_Impl ivars env)) \<noteq> kIOReturnSuccess
        \<and> CallRegisterService \<notin> set (snd (snd (Start_Impl ivars env)))
        \<and> last (snd (snd (Start_Impl ivars env))) = CallStop
        \<and> (superStart_ret env = kIOReturnSuccess \<and> createAction_ret env = kIOReturnSuccess
             \<and> provider_is_interface env \<and> open_ret env = kIOReturnSuccess \<longrightarrow>
            fst (snd (Start_Impl ivars env)) = kIOReturnInvalid)"
    if "getElements_ret env = Some deviceElements" and "classified ivars deviceElements = []"
  proof -
    from that(2) found have "\<not> snd (parseMouseElements ivars deviceElements)" by simp
    then obtain iv' where "parseMouseElements ivars deviceElements = (iv', False)"
      by (cases "parseMouseElements ivars deviceElements") auto
    with that(1) inv err show ?thesis
      by (simp add: Start_Impl_def)
  qed
  from found start show ?thesis by blast
qed

theorem attach_failure_witness:
  "getElements_ret (example_env (take 2 example_device)) = Some (take 2 example_device)
   \<and> classified init_ivars (take 2 example_device) = []
   \<and> snd (parseMouseElements init_ivars (take 2 example_device)) = False
   \<and> superStart_ret (example_env (take 2 example_device)) = kIOReturnSuccess
   \<and> createAction_ret (example_env (take 2 example_device)) = kIOReturnSuccess
   \<and> provider_is_interface (example_env (take 2 example_device))
   \<and> open_ret (example_env (take 2 example_device)) = kIOReturnSuccess
   \<and> fst (snd (Start_Impl init_ivars (example_env (take 2 example_device)))) = kIOReturnInvalid
   \<and> CallRegisterService
        \<notin> set (snd (snd (Start_Impl init_ivars (example_env (take 2 example_device)))))"
proof -
  have c: "classified init_ivars (take 2 example_device) = []"
    by (simp add: classified_eq example_device_def isMouseElement_HIDElement
      isMouseElement_OtherObject element_def)
  have e: "getElements_ret (example_env (take 2 example_device)) = Some (take 2 example_device)"
    by (simp add: example_env_def)
  have s: "superStart_ret (example_env (take 2 example_device)) = kIOReturnSuccess
   \<and> createAction_ret (example_env (take 2 example_device)) = kIOReturnSuccess
   \<and> provider_is_interface (example_env (take 2 example_device))
   \<and> open_ret (example_env (take 2 example_device)) = kIOReturnSuccess"
    by (simp add: example_env_def kIOReturnSuccess_def)
  from c e s
    attach_failure [of init_ivars "take 2 example_device" "example_env (take 2 example_device)"]
  show ?thesis by simp
qed

section \<open>What the interpreter computes\<close>

subsection \<open>One iteration and the whole loop\<close>

lemma handleMouseReport_step_OtherObject [simp]:
  "handleMouseReport_step ts rid st OtherObject = st"
  by (cases st) (simp add: handleMouseReport_step_def)

lemma handleMouseReport_step_HIDElement:
  "handleMouseReport_step ts rid (loc, bs) (HIDElement e) =
     (if rid \<noteq> getReportID e \<or> getTimeStamp e \<noteq> ts then (loc, bs)
      else if getUsagePage e = kHIDPage_GenericDesktop then
        (if getUsage e = kHIDUsage_GD_X then (loc\<lparr>dX := push_bit 15 (getValue e)\<rparr>, bs)
         else if getUsage e = kHIDUsage_GD_Y then (loc\<lparr>dY := push_bit 15 (getValue e)\<rparr>, bs)
         else if getUsage e = kHIDUsage_GD_Wheel then
           (loc\<lparr>scrollVert :=
              IOFixedMultiply (push_bit 16 (getValue e)) (push_bit 16 (- 3))\<rparr>, bs)
         else (loc, bs))
      else if getUsagePage e = kHIDPage_Button then
        (if kHIDUsage_Button_1 \<le> getUsage e \<and> getUsage e \<le> kHIDUsage_Button_255
         then (loc, setButtonState bs (getUsage e - kHIDUsage_Button_1) (getValue e))
         else (loc, bs))
      else (loc, bs))"
  by (simp add: handleMouseReport_step_def Let_def)

lemma handleMouseReport_step_skip:
  assumes "OSDynamicCast_IOHIDElement obj = Some e"
    and "getReportID e \<noteq> rid \<or> getTimeStamp e \<noteq> ts"
  shows "handleMouseReport_step ts rid st obj = st"
  using assms by (cases st; cases obj) (auto simp: handleMouseReport_step_HIDElement)

lemma handleMouseReport_loop_append:
  "handleMouseReport_loop ts rid (xs @ ys) st =
     handleMouseReport_loop ts rid ys (handleMouseReport_loop ts rid xs st)"
  by (induction xs arbitrary: st) auto

text \<open>\<open>handleMouseReport\<close> in terms of the state the loop ends in.\<close>

lemma handleMouseReport_eq:
  "handleMouseReport iv ts rid =
     (iv\<lparr>buttonState :=
          snd (handleMouseReport_loop ts rid (mouseElements iv)
                 (\<lparr>dX = 0, dY = 0, scrollVert = 0\<rparr>, buttonState iv))\<rparr>,
      [RelativePointerEvent
         \<lparr>p_timeStamp = ts,
          p_dx = dX (fst (handleMouseReport_loop ts rid (mouseElements iv)
                 (\<lparr>dX = 0, dY = 0, scrollVert = 0\<rparr>, buttonState iv))),
          p_dy = dY (fst (handleMouseReport_loop ts rid (mouseElements iv)
                 (\<lparr>dX = 0, dY = 0, scrollVert = 0\<rparr>, buttonState iv))),
          p_buttonState = snd (handleMouseReport_loop ts rid (mouseElements iv)
                 (\<lparr>dX = 0, dY = 0, scrollVert = 0\<rparr>, buttonState iv)),
          p_options = kIOHIDPointerEventOptionsNoAcceleration, p_accelerate = False\<rparr>,
       RelativeScrollWheelEvent
         \<lparr>s_timeStamp = ts,
          s_dy = scrollVert (fst (handleMouseReport_loop ts rid (mouseElements iv)
                 (\<lparr>dX = 0, dY = 0, scrollVert = 0\<rparr>, buttonState iv))),
          s_dx = 0, s_dz = 0,
          s_options = kIOHIDScrollEventOptionsNoAcceleration, s_accelerate = False\<rparr>])"
  by (simp add: handleMouseReport_def case_prod_beta)

lemma handleMouseReport_loop_skip_all:
  assumes "\<forall>e. HIDElement e \<in> set xs \<longrightarrow> getReportID e \<noteq> rid \<or> getTimeStamp e \<noteq> ts"
  shows "handleMouseReport_loop ts rid xs st = st"
  using assms
proof (induction xs arbitrary: st)
  case Nil
  show ?case by simp
next
  case (Cons obj xs)
  have "handleMouseReport_step ts rid st obj = st"
  proof (cases obj)
    case (HIDElement e)
    with Cons.prems show ?thesis
      by (simp add: handleMouseReport_step_skip)
  next
    case OtherObject
    then show ?thesis by simp
  qed
  with Cons show ?case by simp
qed

subsection \<open>The button mask\<close>

lemma bit_shl_one:
  "n < 32 \<Longrightarrow> bit (push_bit n (1 :: 32 word)) i \<longleftrightarrow> i = n"
  by (auto simp: bit_simps)

lemma setButtonState_Some:
  assumes "setButtonState bs idx v = Some w'"
  shows "idx < 32 \<and> (\<exists>w. bs = Some w \<and> (\<forall>i. i \<noteq> unat idx \<longrightarrow> bit w' i = bit w i)
           \<and> bit w' (unat idx) = (v \<noteq> 0))"
proof -
  from assms have lt: "idx < 32"
    by (auto simp: setButtonState_def shl_int_def split: if_splits option.splits)
  then have n: "unat idx < 32"
    by (simp add: word_less_nat_alt)
  from assms lt obtain w where w: "bs = Some w"
    and w': "w' = (if v = 0 then w AND NOT (push_bit (unat idx) 1) else w OR push_bit (unat idx) 1)"
    by (auto simp: setButtonState_def shl_int_def split: if_splits option.splits)
  have "\<forall>i. i \<noteq> unat idx \<longrightarrow> bit w' i = bit w i"
    using n by (auto simp: w' bit_and_iff bit_or_iff bit_not_iff bit_shl_one
        simp del: push_bit_of_1 dest: bit_imp_le_length)
  moreover have "bit w' (unat idx) = (v \<noteq> 0)"
    using n by (auto simp: w' bit_and_iff bit_or_iff bit_not_iff bit_shl_one
        simp del: push_bit_of_1 dest: bit_imp_le_length)
  ultimately show ?thesis using lt w by blast
qed

lemma setButtonState_None [simp]: "setButtonState None idx v = None"
  by (simp add: setButtonState_def split: option.splits)

lemma setButtonState_defined:
  "idx < 32 \<Longrightarrow> \<exists>w'. setButtonState (Some w) idx v = Some w'"
  by (simp add: setButtonState_def shl_int_def)

lemma setButtonState_undefined:
  "\<not> idx < 32 \<Longrightarrow> setButtonState bs idx v = None"
  by (simp add: setButtonState_def shl_int_def)

lemma button_index_large:
  fixes u :: u32
  assumes "32 < u"
  shows "\<not> u - kHIDUsage_Button_1 < 32" and "32 \<le> u - kHIDUsage_Button_1"
proof -
  from assms have "32 < unat u" by (simp add: word_less_nat_alt)
  moreover from this have "unat (u - 1) = unat u - 1"
    by (simp add: unat_sub word_le_nat_alt)
  ultimately have "32 \<le> unat (u - 1)" by simp
  then show "32 \<le> u - kHIDUsage_Button_1"
    by (simp add: kHIDUsage_Button_1_def word_le_nat_alt)
  then show "\<not> u - kHIDUsage_Button_1 < 32" by simp
qed

lemma button_index_small:
  fixes u :: u32
  assumes "kHIDUsage_Button_1 \<le> u" and "u \<le> 32"
  shows "u - kHIDUsage_Button_1 < 32"
proof -
  from assms have "1 \<le> unat u" "unat u \<le> 32"
    by (simp_all add: word_le_nat_alt kHIDUsage_Button_1_def)
  moreover from this have "unat (u - 1) = unat u - 1"
    by (simp add: unat_sub word_le_nat_alt)
  ultimately have "unat (u - 1) < 32" by simp
  then show ?thesis
    by (simp add: kHIDUsage_Button_1_def word_less_nat_alt)
qed

text \<open>A defined mask after an iteration, or after the loop, comes from a defined mask
  and differs from it only at the bits of the button channels of the packet.\<close>

lemma handleMouseReport_step_buttons_Some:
  assumes "handleMouseReport_step ts rid (loc, bs) obj = (loc', Some w')"
  shows "\<exists>w. bs = Some w \<and>
           (\<forall>i. (\<forall>e. obj = HIDElement e \<and> getReportID e = rid \<and> getTimeStamp e = ts
                      \<and> getUsagePage e = kHIDPage_Button
                    \<longrightarrow> unat (getUsage e - kHIDUsage_Button_1) \<noteq> i)
                \<longrightarrow> bit w' i = bit w i)"
proof (cases obj)
  case OtherObject
  with assms show ?thesis by simp
next
  case (HIDElement e)
  show ?thesis
  proof (cases "rid = getReportID e \<and> getTimeStamp e = ts
      \<and> getUsagePage e = kHIDPage_Button \<and> kHIDUsage_Button_1 \<le> getUsage e
      \<and> getUsage e \<le> kHIDUsage_Button_255")
    case True
    with assms HIDElement
    have "setButtonState bs (getUsage e - kHIDUsage_Button_1) (getValue e) = Some w'"
      by (simp add: handleMouseReport_step_HIDElement kHIDPage_Button_def
          kHIDPage_GenericDesktop_def)
    from setButtonState_Some [OF this] HIDElement True show ?thesis
      by auto
  next
    case False
    with assms HIDElement have "bs = Some w'"
      by (auto simp: handleMouseReport_step_HIDElement split: if_splits)
    then show ?thesis by simp
  qed
qed

lemma handleMouseReport_loop_buttons_Some:
  assumes "snd (handleMouseReport_loop ts rid xs (loc, bs)) = Some w'"
  shows "\<exists>w. bs = Some w \<and>
           (\<forall>i. (\<forall>e. HIDElement e \<in> set xs \<and> getReportID e = rid \<and> getTimeStamp e = ts
                      \<and> getUsagePage e = kHIDPage_Button
                    \<longrightarrow> unat (getUsage e - kHIDUsage_Button_1) \<noteq> i)
                \<longrightarrow> bit w' i = bit w i)"
  using assms
proof (induction xs arbitrary: loc bs)
  case Nil
  then show ?case by simp
next
  case (Cons obj xs)
  obtain loc1 bs1 where step: "handleMouseReport_step ts rid (loc, bs) obj = (loc1, bs1)"
    by (cases "handleMouseReport_step ts rid (loc, bs) obj") auto
  with Cons.prems have "snd (handleMouseReport_loop ts rid xs (loc1, bs1)) = Some w'"
    by simp
  from Cons.IH [OF this] obtain w1 where w1: "bs1 = Some w1"
    and f1: "\<And>i. (\<forall>e. HIDElement e \<in> set xs \<and> getReportID e = rid \<and> getTimeStamp e = ts
                      \<and> getUsagePage e = kHIDPage_Button
                    \<longrightarrow> unat (getUsage e - kHIDUsage_Button_1) \<noteq> i)
                \<Longrightarrow> bit w' i = bit w1 i"
    by blast
  from step w1 have "handleMouseReport_step ts rid (loc, bs) obj = (loc1, Some w1)"
    by simp
  from handleMouseReport_step_buttons_Some [OF this] obtain w where w: "bs = Some w"
    and f: "\<And>i. (\<forall>e. obj = HIDElement e \<and> getReportID e = rid \<and> getTimeStamp e = ts
                      \<and> getUsagePage e = kHIDPage_Button
                    \<longrightarrow> unat (getUsage e - kHIDUsage_Button_1) \<noteq> i)
                \<Longrightarrow> bit w1 i = bit w i"
    by blast
  have "bit w' i = bit w i"
    if "\<forall>e. HIDElement e \<in> set (obj # xs) \<and> getReportID e = rid \<and> getTimeStamp e = ts
                      \<and> getUsagePage e = kHIDPage_Button
                    \<longrightarrow> unat (getUsage e - kHIDUsage_Button_1) \<noteq> i" for i
  proof -
    from that have "bit w' i = bit w1 i" by (intro f1) auto
    moreover from that have "bit w1 i = bit w i" by (intro f) auto
    ultimately show ?thesis by simp
  qed
  with w show ?case by blast
qed

lemma handleMouseReport_step_buttons_unchanged:
  assumes "\<forall>e. obj = HIDElement e \<and> getReportID e = rid \<and> getTimeStamp e = ts
             \<longrightarrow> getUsagePage e \<noteq> kHIDPage_Button"
  shows "snd (handleMouseReport_step ts rid (loc, bs) obj) = bs"
  using assms by (cases obj) (auto simp: handleMouseReport_step_HIDElement)

lemma handleMouseReport_loop_buttons_unchanged:
  assumes "\<forall>e. HIDElement e \<in> set xs \<and> getReportID e = rid \<and> getTimeStamp e = ts
             \<longrightarrow> getUsagePage e \<noteq> kHIDPage_Button"
  shows "snd (handleMouseReport_loop ts rid xs (loc, bs)) = bs"
  using assms
proof (induction xs arbitrary: loc)
  case Nil
  show ?case by simp
next
  case (Cons obj xs)
  obtain loc1 bs1 where step: "handleMouseReport_step ts rid (loc, bs) obj = (loc1, bs1)"
    by (cases "handleMouseReport_step ts rid (loc, bs) obj") auto
  from Cons.prems have "snd (handleMouseReport_step ts rid (loc, bs) obj) = bs"
    by (intro handleMouseReport_step_buttons_unchanged) auto
  with step have "bs1 = bs" by simp
  with step Cons show ?case by simp
qed

text \<open>An indeterminate mask stays indeterminate; a defined mask stays defined as long as
  every shift is.\<close>

lemma handleMouseReport_step_None:
  "snd (handleMouseReport_step ts rid (loc, None) obj) = None"
  by (cases obj) (auto simp: handleMouseReport_step_HIDElement)

lemma handleMouseReport_loop_None:
  "snd (handleMouseReport_loop ts rid xs (loc, None)) = None"
proof (induction xs arbitrary: loc)
  case Nil
  show ?case by simp
next
  case (Cons obj xs)
  obtain loc1 bs1 where step: "handleMouseReport_step ts rid (loc, None) obj = (loc1, bs1)"
    by (cases "handleMouseReport_step ts rid (loc, None) obj") auto
  with handleMouseReport_step_None [of ts rid loc obj] have "bs1 = None" by simp
  with step Cons.IH show ?case by simp
qed

lemma handleMouseReport_loop_buttons_defined:
  assumes "\<forall>e. HIDElement e \<in> set xs \<and> getReportID e = rid \<and> getTimeStamp e = ts
             \<and> getUsagePage e = kHIDPage_Button \<and> kHIDUsage_Button_1 \<le> getUsage e
             \<and> getUsage e \<le> kHIDUsage_Button_255 \<longrightarrow> getUsage e \<le> 32"
  shows "\<exists>w'. snd (handleMouseReport_loop ts rid xs (loc, Some w)) = Some w'"
  using assms
proof (induction xs arbitrary: loc w)
  case Nil
  show ?case by simp
next
  case (Cons obj xs)
  have "\<exists>loc1 w1. handleMouseReport_step ts rid (loc, Some w) obj = (loc1, Some w1)"
  proof (cases obj)
    case OtherObject
    then show ?thesis by simp
  next
    case (HIDElement e)
    show ?thesis
    proof (cases "rid = getReportID e \<and> getTimeStamp e = ts
      \<and> getUsagePage e = kHIDPage_Button \<and> kHIDUsage_Button_1 \<le> getUsage e
      \<and> getUsage e \<le> kHIDUsage_Button_255")
      case True
      with Cons.prems HIDElement have "getUsage e \<le> 32" by simp
      with True have "getUsage e - kHIDUsage_Button_1 < 32"
        by (intro button_index_small) simp_all
      from setButtonState_defined [OF this, of w "getValue e"] True HIDElement
      show ?thesis
        by (auto simp: handleMouseReport_step_HIDElement kHIDPage_Button_def
            kHIDPage_GenericDesktop_def)
    next
      case False
      then have "snd (handleMouseReport_step ts rid (loc, Some w) (HIDElement e)) = Some w"
        by (auto simp: handleMouseReport_step_HIDElement)
      with HIDElement show ?thesis
        by (cases "handleMouseReport_step ts rid (loc, Some w) (HIDElement e)") auto
    qed
  qed
  then obtain loc1 w1
    where step: "handleMouseReport_step ts rid (loc, Some w) obj = (loc1, Some w1)"
    by blast
  from Cons.prems
  have "\<forall>e. HIDElement e \<in> set xs \<and> getReportID e = rid \<and> getTimeStamp e = ts
             \<and> getUsagePage e = kHIDPage_Button \<and> kHIDUsage_Button_1 \<le> getUsage e
             \<and> getUsage e \<le> kHIDUsage_Button_255 \<longrightarrow> getUsage e \<le> 32"
    by auto
  from Cons.IH [OF this, of loc1 w1] step show ?case by simp
qed

subsection \<open>The axis and wheel deltas\<close>

lemma handleMouseReport_step_fst_other:
  assumes "\<not> (rid = getReportID e \<and> getTimeStamp e = ts
             \<and> getUsagePage e = kHIDPage_GenericDesktop)"
  shows "fst (handleMouseReport_step ts rid (loc, bs) (HIDElement e)) = loc"
  using assms by (simp add: handleMouseReport_step_HIDElement)

lemma handleMouseReport_step_axis:
  assumes "rid = getReportID e" and "getTimeStamp e = ts"
    and "getUsagePage e = kHIDPage_GenericDesktop"
  shows "handleMouseReport_step ts rid (loc, bs) (HIDElement e) =
      (if getUsage e = kHIDUsage_GD_X then (loc\<lparr>dX := push_bit 15 (getValue e)\<rparr>, bs)
       else if getUsage e = kHIDUsage_GD_Y then (loc\<lparr>dY := push_bit 15 (getValue e)\<rparr>, bs)
       else if getUsage e = kHIDUsage_GD_Wheel then
         (loc\<lparr>scrollVert :=
            IOFixedMultiply (push_bit 16 (getValue e)) (push_bit 16 (- 3))\<rparr>, bs)
       else (loc, bs))"
  using assms by (simp add: handleMouseReport_step_HIDElement)

lemma handleMouseReport_step_axis_frame:
  assumes "\<forall>e. obj = HIDElement e \<and> getReportID e = rid \<and> getTimeStamp e = ts
             \<and> getUsagePage e = kHIDPage_GenericDesktop \<longrightarrow> getUsage e \<noteq> u"
  shows "(u = kHIDUsage_GD_X \<longrightarrow> dX (fst (handleMouseReport_step ts rid (loc, bs) obj)) = dX loc)
     \<and> (u = kHIDUsage_GD_Y \<longrightarrow> dY (fst (handleMouseReport_step ts rid (loc, bs) obj)) = dY loc)
     \<and> (u = kHIDUsage_GD_Wheel \<longrightarrow>
          scrollVert (fst (handleMouseReport_step ts rid (loc, bs) obj)) = scrollVert loc)"
proof (cases obj)
  case OtherObject
  then show ?thesis by simp
next
  case (HIDElement e)
  show ?thesis
  proof (cases "rid = getReportID e \<and> getTimeStamp e = ts
             \<and> getUsagePage e = kHIDPage_GenericDesktop")
    case True
    with assms HIDElement have "getUsage e \<noteq> u" by simp
    moreover from True
    have "handleMouseReport_step ts rid (loc, bs) (HIDElement e) =
      (if getUsage e = kHIDUsage_GD_X then (loc\<lparr>dX := push_bit 15 (getValue e)\<rparr>, bs)
       else if getUsage e = kHIDUsage_GD_Y then (loc\<lparr>dY := push_bit 15 (getValue e)\<rparr>, bs)
       else if getUsage e = kHIDUsage_GD_Wheel then
         (loc\<lparr>scrollVert :=
            IOFixedMultiply (push_bit 16 (getValue e)) (push_bit 16 (- 3))\<rparr>, bs)
       else (loc, bs))"
      by (intro handleMouseReport_step_axis) simp_all
    ultimately have "(u = kHIDUsage_GD_X \<longrightarrow>
            dX (fst (handleMouseReport_step ts rid (loc, bs) (HIDElement e))) = dX loc)
       \<and> (u = kHIDUsage_GD_Y \<longrightarrow>
            dY (fst (handleMouseReport_step ts rid (loc, bs) (HIDElement e))) = dY loc)
       \<and> (u = kHIDUsage_GD_Wheel \<longrightarrow>
            scrollVert (fst (handleMouseReport_step ts rid (loc, bs) (HIDElement e)))
              = scrollVert loc)"
      by (intro conjI impI) simp_all
    with HIDElement show ?thesis by simp
  next
    case False
    then have "fst (handleMouseReport_step ts rid (loc, bs) (HIDElement e)) = loc"
      by (rule handleMouseReport_step_fst_other)
    with HIDElement show ?thesis by simp
  qed
qed

lemma handleMouseReport_loop_axis_frame:
  assumes "\<forall>e. HIDElement e \<in> set xs \<and> getReportID e = rid \<and> getTimeStamp e = ts
             \<and> getUsagePage e = kHIDPage_GenericDesktop \<longrightarrow> getUsage e \<noteq> u"
  shows "(u = kHIDUsage_GD_X \<longrightarrow> dX (fst (handleMouseReport_loop ts rid xs (loc, bs))) = dX loc)
     \<and> (u = kHIDUsage_GD_Y \<longrightarrow> dY (fst (handleMouseReport_loop ts rid xs (loc, bs))) = dY loc)
     \<and> (u = kHIDUsage_GD_Wheel \<longrightarrow>
          scrollVert (fst (handleMouseReport_loop ts rid xs (loc, bs))) = scrollVert loc)"
  using assms
proof (induction xs arbitrary: loc bs)
  case Nil
  show ?case by simp
next
  case (Cons obj xs)
  obtain loc1 bs1 where step: "handleMouseReport_step ts rid (loc, bs) obj = (loc1, bs1)"
    by (cases "handleMouseReport_step ts rid (loc, bs) obj") auto
  from Cons.prems
  have "\<forall>e. obj = HIDElement e \<and> getReportID e = rid \<and> getTimeStamp e = ts
             \<and> getUsagePage e = kHIDPage_GenericDesktop \<longrightarrow> getUsage e \<noteq> u"
    by auto
  from handleMouseReport_step_axis_frame [OF this, of loc bs] step
  have one: "(u = kHIDUsage_GD_X \<longrightarrow> dX loc1 = dX loc)
     \<and> (u = kHIDUsage_GD_Y \<longrightarrow> dY loc1 = dY loc)
     \<and> (u = kHIDUsage_GD_Wheel \<longrightarrow> scrollVert loc1 = scrollVert loc)"
    by simp
  from Cons.prems
  have "\<forall>e. HIDElement e \<in> set xs \<and> getReportID e = rid \<and> getTimeStamp e = ts
             \<and> getUsagePage e = kHIDPage_GenericDesktop \<longrightarrow> getUsage e \<noteq> u"
    by auto
  from Cons.IH [OF this, of loc1 bs1] one step show ?case
    by simp
qed

subsection \<open>Fixed-point multiplication\<close>

text \<open>The 64-bit product of two 32-bit factors cannot overflow, so \<open>IOFixedMultiply\<close> is
  the integer product, divided by \<open>2^16\<close> rounding down, and cut to 32 bits.\<close>

lemma sint_scast_up: "sint (scast (a :: 32 word) :: 64 word) = sint a"
  by (simp add: sint_up_scast is_up)

lemma prod_bound:
  fixes a b :: "32 word"
  shows "- (2 ^ 63) \<le> sint a * sint b \<and> sint a * sint b < 2 ^ 63"
proof -
  have a: "- (2 ^ 31) \<le> sint a" "sint a < 2 ^ 31"
    using sint_ge [of a] sint_lt [of a] by simp_all
  have b: "- (2 ^ 31) \<le> sint b" "sint b < 2 ^ 31"
    using sint_ge [of b] sint_lt [of b] by simp_all
  have "\<bar>sint a\<bar> \<le> 2 ^ 31" "\<bar>sint b\<bar> \<le> 2 ^ 31"
    using a b by simp_all
  then have "\<bar>sint a\<bar> * \<bar>sint b\<bar> \<le> 2 ^ 31 * 2 ^ 31"
    by (intro mult_mono) simp_all
  then have "\<bar>sint a * sint b\<bar> \<le> 4611686018427387904"
    by (simp add: abs_mult)
  moreover have "\<bar>x\<bar> \<le> 4611686018427387904 \<Longrightarrow>
      - 9223372036854775808 \<le> x \<and> x < 9223372036854775808" for x :: int
    by arith
  ultimately show ?thesis by simp
qed

lemma sint_prod64:
  fixes a b :: "32 word"
  shows "sint ((scast a :: 64 word) * scast b) = sint a * sint b"
proof -
  have "sint ((scast a :: 64 word) * scast b) = signed_take_bit 63 (sint a * sint b)"
    by (simp add: sint_word_ariths sint_scast_up)
  also have "\<dots> = sint a * sint b"
    using prod_bound [of a b] by (simp add: signed_take_bit_int_eq_self)
  finally show ?thesis .
qed

lemma IOFixedMultiply_int:
  "IOFixedMultiply a b = word_of_int ((sint a * sint b) div 2 ^ 16)"
proof -
  have s: "sint (signed_drop_bit 16 ((scast a :: 64 word) * scast b)) = (sint a * sint b) div 2 ^ 16"
    by (simp add: sint_signed_drop_bit_eq sint_prod64 drop_bit_eq_div)
  have "(ucast :: 64 word \<Rightarrow> 32 word) = scast"
    by (rule down_cast_same) (simp add: is_down)
  then have "IOFixedMultiply a b = scast (signed_drop_bit 16 ((scast a :: 64 word) * scast b))"
    by (simp add: IOFixedMultiply_def)
  also have "\<dots> = word_of_int (sint (signed_drop_bit 16 ((scast a :: 64 word) * scast b)))"
    by (rule scast_eq)
  finally show ?thesis by (simp only: s)
qed

subsection \<open>Evaluation on concrete packets\<close>

lemmas hid_constants =
  kHIDPage_GenericDesktop_def kHIDPage_Button_def kHIDUsage_GD_X_def kHIDUsage_GD_Y_def
  kHIDUsage_GD_Wheel_def kHIDUsage_Button_1_def kHIDUsage_Button_255_def

lemmas report_eval =
  handleMouseReport_def handleMouseReport_step_def setButtonState_def shl_int_def
  IOFixedMultiply_def Let_def element_def init_ivars_def hid_constants

section \<open>Claims about the report interpreter\<close>

text \<open>
  C1. A channel of the classified set whose report ID differs from the packet's, or whose
  time stamp differs from the packet's, is skipped: the iteration leaves the deltas and
  the button mask as they are, and the events and the button mask of the whole call are
  those of the call without that channel, whatever the other check says.
\<close>

theorem skip_nonmatching_channel:
  assumes "OSDynamicCast_IOHIDElement obj = Some e"
    and "getReportID e \<noteq> rid \<or> getTimeStamp e \<noteq> ts"
  shows "handleMouseReport_step ts rid st obj = st
     \<and> snd (handleMouseReport (iv\<lparr>mouseElements := xs @ obj # ys\<rparr>) ts rid)
         = snd (handleMouseReport (iv\<lparr>mouseElements := xs @ ys\<rparr>) ts rid)
     \<and> buttonState (fst (handleMouseReport (iv\<lparr>mouseElements := xs @ obj # ys\<rparr>) ts rid))
         = buttonState (fst (handleMouseReport (iv\<lparr>mouseElements := xs @ ys\<rparr>) ts rid))"
proof -
  have skip: "handleMouseReport_step ts rid s obj = s" for s
    using assms by (rule handleMouseReport_step_skip)
  have "handleMouseReport_loop ts rid (xs @ obj # ys) s
      = handleMouseReport_loop ts rid (xs @ ys) s" for s
    by (simp add: handleMouseReport_loop_append skip)
  with skip show ?thesis
    by (simp add: handleMouseReport_eq)
qed

theorem skip_nonmatching_channel_witness:
  "OSDynamicCast_IOHIDElement (HIDElement (element kIOHIDElementTypeInput_Misc 0x01 0x30 2 100 9))
     = Some (element kIOHIDElementTypeInput_Misc 0x01 0x30 2 100 9)
   \<and> getReportID (element kIOHIDElementTypeInput_Misc 0x01 0x30 2 100 9) \<noteq> 1
   \<and> getTimeStamp (element kIOHIDElementTypeInput_Misc 0x01 0x30 2 100 9) = 100
   \<and> snd (handleMouseReport
        (init_ivars\<lparr>mouseElements :=
           [HIDElement (element kIOHIDElementTypeInput_Misc 0x01 0x30 1 100 4)]
           @ HIDElement (element kIOHIDElementTypeInput_Misc 0x01 0x30 2 100 9) # []\<rparr>) 100 1)
     = [RelativePointerEvent
          \<lparr>p_timeStamp = 100, p_dx = 131072, p_dy = 0, p_buttonState = Some 0,
           p_options = kIOHIDPointerEventOptionsNoAcceleration, p_accelerate = False\<rparr>,
        RelativeScrollWheelEvent
          \<lparr>s_timeStamp = 100, s_dy = 0, s_dx = 0, s_dz = 0,
           s_options = kIOHIDScrollEventOptionsNoAcceleration, s_accelerate = False\<rparr>]"
proof -
  have c: "OSDynamicCast_IOHIDElement
      (HIDElement (element kIOHIDElementTypeInput_Misc 0x01 0x30 2 100 9))
     = Some (element kIOHIDElementTypeInput_Misc 0x01 0x30 2 100 9)"
    by simp
  have m: "getReportID (element kIOHIDElementTypeInput_Misc 0x01 0x30 2 100 9) \<noteq> 1
      \<or> getTimeStamp (element kIOHIDElementTypeInput_Misc 0x01 0x30 2 100 9) \<noteq> 100"
    by (simp add: element_def)
  have r: "snd (handleMouseReport
        (init_ivars\<lparr>mouseElements :=
           [HIDElement (element kIOHIDElementTypeInput_Misc 0x01 0x30 1 100 4)] @ []\<rparr>) 100 1)
     = [RelativePointerEvent
          \<lparr>p_timeStamp = 100, p_dx = 131072, p_dy = 0, p_buttonState = Some 0,
           p_options = kIOHIDPointerEventOptionsNoAcceleration, p_accelerate = False\<rparr>,
        RelativeScrollWheelEvent
          \<lparr>s_timeStamp = 100, s_dy = 0, s_dx = 0, s_dz = 0,
           s_options = kIOHIDScrollEventOptionsNoAcceleration, s_accelerate = False\<rparr>]"
    by (simp add: report_eval)
  from skip_nonmatching_channel [where iv = init_ivars
      and xs = "[HIDElement (element kIOHIDElementTypeInput_Misc 0x01 0x30 1 100 4)]"
      and ys = "[]", OF c m] r c
  show ?thesis
    by (simp add: element_def)
qed

text \<open>
  C2. For a channel of the generic desktop page that matches the packet, the iteration
  sets \<open>dX\<close> to the value shifted left by 15 for the X axis, \<open>dY\<close> likewise for the Y
  axis, and \<open>scrollVert\<close> to \<open>IOFixedMultiply\<close> of the value shifted left by 16 and of
  \<open>-3\<close> shifted left by 16 for the wheel. A packet with a sole X channel of value 4
  dispatches \<open>dx = 131072\<close>; one with a sole wheel channel of value 2 dispatches the
  scroll delta \<open>-393216\<close>, the product of 131072 and -196608, which is \<open>-6\<close> in 16.16.
\<close>

theorem fixed_point_scaling:
  assumes "getReportID e = rid" and "getTimeStamp e = ts"
    and "getUsagePage e = kHIDPage_GenericDesktop"
  shows "(getUsage e = kHIDUsage_GD_X \<longrightarrow>
            handleMouseReport_step ts rid (loc, bs) (HIDElement e)
              = (loc\<lparr>dX := push_bit 15 (getValue e)\<rparr>, bs))
     \<and> (getUsage e = kHIDUsage_GD_Y \<longrightarrow>
            handleMouseReport_step ts rid (loc, bs) (HIDElement e)
              = (loc\<lparr>dY := push_bit 15 (getValue e)\<rparr>, bs))
     \<and> (getUsage e = kHIDUsage_GD_Wheel \<longrightarrow>
            handleMouseReport_step ts rid (loc, bs) (HIDElement e)
              = (loc\<lparr>scrollVert :=
                   IOFixedMultiply (push_bit 16 (getValue e)) (push_bit 16 (- 3))\<rparr>, bs))
     \<and> (getUsage e = kHIDUsage_GD_X \<and> getValue e = 4 \<longrightarrow>
            snd (handleMouseReport \<lparr>mouseElements = [HIDElement e], buttonState = b\<rparr> ts rid)
              = [RelativePointerEvent
                   \<lparr>p_timeStamp = ts, p_dx = 131072, p_dy = 0, p_buttonState = b,
                    p_options = kIOHIDPointerEventOptionsNoAcceleration,
                    p_accelerate = False\<rparr>,
                 RelativeScrollWheelEvent
                   \<lparr>s_timeStamp = ts, s_dy = 0, s_dx = 0, s_dz = 0,
                    s_options = kIOHIDScrollEventOptionsNoAcceleration,
                    s_accelerate = False\<rparr>])
     \<and> (getUsage e = kHIDUsage_GD_Wheel \<and> getValue e = 2 \<longrightarrow>
            snd (handleMouseReport \<lparr>mouseElements = [HIDElement e], buttonState = b\<rparr> ts rid)
              = [RelativePointerEvent
                   \<lparr>p_timeStamp = ts, p_dx = 0, p_dy = 0, p_buttonState = b,
                    p_options = kIOHIDPointerEventOptionsNoAcceleration,
                    p_accelerate = False\<rparr>,
                 RelativeScrollWheelEvent
                   \<lparr>s_timeStamp = ts, s_dy = - 393216, s_dx = 0, s_dz = 0,
                    s_options = kIOHIDScrollEventOptionsNoAcceleration,
                    s_accelerate = False\<rparr>])
     \<and> IOFixedMultiply 131072 (- 196608) = - 393216
     \<and> sint (- 393216 :: IOFixed) = - 6 * 65536"
proof -
  have distinct: "kHIDUsage_GD_X \<noteq> kHIDUsage_GD_Y" "kHIDUsage_GD_X \<noteq> kHIDUsage_GD_Wheel"
    "kHIDUsage_GD_Y \<noteq> kHIDUsage_GD_Wheel"
    by (simp_all add: kHIDUsage_GD_X_def kHIDUsage_GD_Y_def kHIDUsage_GD_Wheel_def)
  have mul: "IOFixedMultiply 131072 (- 196608) = - 393216"
    by (simp add: IOFixedMultiply_def)
  have sgn: "sint (- 393216 :: IOFixed) = - 6 * 65536"
    by simp
  have step: "handleMouseReport_step ts rid (l, c) (HIDElement e) =
      (if getUsage e = kHIDUsage_GD_X then (l\<lparr>dX := push_bit 15 (getValue e)\<rparr>, c)
       else if getUsage e = kHIDUsage_GD_Y then (l\<lparr>dY := push_bit 15 (getValue e)\<rparr>, c)
       else if getUsage e = kHIDUsage_GD_Wheel then
         (l\<lparr>scrollVert := IOFixedMultiply (push_bit 16 (getValue e)) (push_bit 16 (- 3))\<rparr>, c)
       else (l, c))" for l c
    using assms by (simp add: handleMouseReport_step_HIDElement)
  have sx: "handleMouseReport_step ts rid (loc, bs) (HIDElement e)
              = (loc\<lparr>dX := push_bit 15 (getValue e)\<rparr>, bs)"
    if "getUsage e = kHIDUsage_GD_X"
    using that by (simp add: step)
  have sy: "handleMouseReport_step ts rid (loc, bs) (HIDElement e)
              = (loc\<lparr>dY := push_bit 15 (getValue e)\<rparr>, bs)"
    if "getUsage e = kHIDUsage_GD_Y"
    using that distinct by (simp add: step)
  have sw: "handleMouseReport_step ts rid (loc, bs) (HIDElement e)
              = (loc\<lparr>scrollVert :=
                   IOFixedMultiply (push_bit 16 (getValue e)) (push_bit 16 (- 3))\<rparr>, bs)"
    if "getUsage e = kHIDUsage_GD_Wheel"
    using that distinct by (simp add: step)
  have ex: "snd (handleMouseReport \<lparr>mouseElements = [HIDElement e], buttonState = b\<rparr> ts rid)
              = [RelativePointerEvent
                   \<lparr>p_timeStamp = ts, p_dx = 131072, p_dy = 0, p_buttonState = b,
                    p_options = kIOHIDPointerEventOptionsNoAcceleration,
                    p_accelerate = False\<rparr>,
                 RelativeScrollWheelEvent
                   \<lparr>s_timeStamp = ts, s_dy = 0, s_dx = 0, s_dz = 0,
                    s_options = kIOHIDScrollEventOptionsNoAcceleration,
                    s_accelerate = False\<rparr>]"
    if "getUsage e = kHIDUsage_GD_X" and "getValue e = 4"
  proof -
    have "handleMouseReport_step ts rid (\<lparr>dX = 0, dY = 0, scrollVert = 0\<rparr>, b) (HIDElement e)
        = (\<lparr>dX = 131072, dY = 0, scrollVert = 0\<rparr>, b)"
      using that by (simp add: step)
    then show ?thesis
      by (simp add: handleMouseReport_eq)
  qed
  have ew: "snd (handleMouseReport \<lparr>mouseElements = [HIDElement e], buttonState = b\<rparr> ts rid)
              = [RelativePointerEvent
                   \<lparr>p_timeStamp = ts, p_dx = 0, p_dy = 0, p_buttonState = b,
                    p_options = kIOHIDPointerEventOptionsNoAcceleration,
                    p_accelerate = False\<rparr>,
                 RelativeScrollWheelEvent
                   \<lparr>s_timeStamp = ts, s_dy = - 393216, s_dx = 0, s_dz = 0,
                    s_options = kIOHIDScrollEventOptionsNoAcceleration,
                    s_accelerate = False\<rparr>]"
    if "getUsage e = kHIDUsage_GD_Wheel" and "getValue e = 2"
  proof -
    have "handleMouseReport_step ts rid (\<lparr>dX = 0, dY = 0, scrollVert = 0\<rparr>, b) (HIDElement e)
        = (\<lparr>dX = 0, dY = 0, scrollVert = - 393216\<rparr>, b)"
      using that distinct mul by (simp add: step)
    then show ?thesis
      by (simp add: handleMouseReport_eq)
  qed
  from sx sy sw ex ew mul sgn show ?thesis
    by blast
qed

theorem fixed_point_scaling_witness:
  "getReportID (element kIOHIDElementTypeInput_Misc 0x01 0x38 1 100 2) = 1
   \<and> getTimeStamp (element kIOHIDElementTypeInput_Misc 0x01 0x38 1 100 2) = 100
   \<and> getUsagePage (element kIOHIDElementTypeInput_Misc 0x01 0x38 1 100 2)
       = kHIDPage_GenericDesktop
   \<and> getUsage (element kIOHIDElementTypeInput_Misc 0x01 0x38 1 100 2) = kHIDUsage_GD_Wheel
   \<and> getValue (element kIOHIDElementTypeInput_Misc 0x01 0x38 1 100 2) = 2
   \<and> snd (handleMouseReport
        \<lparr>mouseElements = [HIDElement (element kIOHIDElementTypeInput_Misc 0x01 0x38 1 100 2)],
         buttonState = Some 0\<rparr> 100 1)
     = [RelativePointerEvent
          \<lparr>p_timeStamp = 100, p_dx = 0, p_dy = 0, p_buttonState = Some 0,
           p_options = kIOHIDPointerEventOptionsNoAcceleration, p_accelerate = False\<rparr>,
        RelativeScrollWheelEvent
          \<lparr>s_timeStamp = 100, s_dy = - 393216, s_dx = 0, s_dz = 0,
           s_options = kIOHIDScrollEventOptionsNoAcceleration, s_accelerate = False\<rparr>]"
proof -
  have h: "getReportID (element kIOHIDElementTypeInput_Misc 0x01 0x38 1 100 2) = 1"
    "getTimeStamp (element kIOHIDElementTypeInput_Misc 0x01 0x38 1 100 2) = 100"
    "getUsagePage (element kIOHIDElementTypeInput_Misc 0x01 0x38 1 100 2)
       = kHIDPage_GenericDesktop"
    by (simp_all add: element_def hid_constants)
  have u: "getUsage (element kIOHIDElementTypeInput_Misc 0x01 0x38 1 100 2) = kHIDUsage_GD_Wheel"
    "getValue (element kIOHIDElementTypeInput_Misc 0x01 0x38 1 100 2) = 2"
    by (simp_all add: element_def hid_constants)
  from fixed_point_scaling [where b = "Some 0", OF h] h u show ?thesis
    by blast
qed

text \<open>
  C5. Every call of \<open>handleMouseReport\<close> dispatches exactly one relative pointer event
  followed by one relative scroll wheel event, both with the packet's time stamp, the
  no-acceleration option and \<open>accelerate = false\<close>; the scroll event's horizontal and
  depth deltas are 0 and the pointer event carries the button mask the call leaves. If
  no channel of the classified set matches the packet's report ID and time stamp, the
  three deltas are 0 and the button mask is the one before the call.
\<close>

theorem events_always_dispatched:
  "\<exists>p s. snd (handleMouseReport iv ts rid) = [RelativePointerEvent p, RelativeScrollWheelEvent s]
     \<and> p_timeStamp p = ts \<and> s_timeStamp s = ts
     \<and> p_options p = kIOHIDPointerEventOptionsNoAcceleration \<and> p_accelerate p = False
     \<and> s_options s = kIOHIDScrollEventOptionsNoAcceleration \<and> s_accelerate s = False
     \<and> s_dx s = 0 \<and> s_dz s = 0
     \<and> p_buttonState p = buttonState (fst (handleMouseReport iv ts rid))
     \<and> ((\<forall>e. HIDElement e \<in> set (mouseElements iv) \<longrightarrow>
              getReportID e \<noteq> rid \<or> getTimeStamp e \<noteq> ts) \<longrightarrow>
          p_dx p = 0 \<and> p_dy p = 0 \<and> s_dy s = 0 \<and> p_buttonState p = buttonState iv
          \<and> buttonState (fst (handleMouseReport iv ts rid)) = buttonState iv)"
proof (cases "\<forall>e. HIDElement e \<in> set (mouseElements iv) \<longrightarrow>
              getReportID e \<noteq> rid \<or> getTimeStamp e \<noteq> ts")
  case True
  then have "handleMouseReport_loop ts rid (mouseElements iv)
                 (\<lparr>dX = 0, dY = 0, scrollVert = 0\<rparr>, buttonState iv)
            = (\<lparr>dX = 0, dY = 0, scrollVert = 0\<rparr>, buttonState iv)"
    by (rule handleMouseReport_loop_skip_all)
  then show ?thesis
    by (simp add: handleMouseReport_eq)
next
  case False
  then show ?thesis
    by (auto simp: handleMouseReport_eq)
qed

theorem events_always_dispatched_witness:
  "getReportID (element kIOHIDElementTypeInput_Misc 0x01 0x30 2 100 9) \<noteq> 1
   \<and> snd (handleMouseReport
        \<lparr>mouseElements = [HIDElement (element kIOHIDElementTypeInput_Misc 0x01 0x30 2 100 9)],
         buttonState = Some 4\<rparr> 100 1)
     = [RelativePointerEvent
          \<lparr>p_timeStamp = 100, p_dx = 0, p_dy = 0, p_buttonState = Some 4,
           p_options = kIOHIDPointerEventOptionsNoAcceleration, p_accelerate = False\<rparr>,
        RelativeScrollWheelEvent
          \<lparr>s_timeStamp = 100, s_dy = 0, s_dx = 0, s_dz = 0,
           s_options = kIOHIDScrollEventOptionsNoAcceleration, s_accelerate = False\<rparr>]"
proof -
  let ?iv = "\<lparr>mouseElements =
      [HIDElement (element kIOHIDElementTypeInput_Misc 0x01 0x30 2 100 9)],
    buttonState = Some 4\<rparr>"
  have n: "\<forall>e. HIDElement e \<in> set (mouseElements ?iv) \<longrightarrow>
      getReportID e \<noteq> 1 \<or> getTimeStamp e \<noteq> 100"
    by (simp add: element_def)
  from events_always_dispatched [of ?iv 100 1] n
  obtain p s where ev: "snd (handleMouseReport ?iv 100 1)
        = [RelativePointerEvent p, RelativeScrollWheelEvent s]"
    and p: "p_timeStamp p = 100" "p_options p = kIOHIDPointerEventOptionsNoAcceleration"
      "p_accelerate p = False" "p_dx p = 0" "p_dy p = 0" "p_buttonState p = Some 4"
    and s: "s_timeStamp s = 100" "s_options s = kIOHIDScrollEventOptionsNoAcceleration"
      "s_accelerate s = False" "s_dx s = 0" "s_dz s = 0" "s_dy s = 0"
    by auto
  from p have "p = \<lparr>p_timeStamp = 100, p_dx = 0, p_dy = 0, p_buttonState = Some 4,
           p_options = kIOHIDPointerEventOptionsNoAcceleration, p_accelerate = False\<rparr>"
    by (cases p) simp
  moreover from s have "s = \<lparr>s_timeStamp = 100, s_dy = 0, s_dx = 0, s_dz = 0,
           s_options = kIOHIDScrollEventOptionsNoAcceleration, s_accelerate = False\<rparr>"
    by (cases s) simp
  ultimately show ?thesis using ev
    by (simp add: element_def)
qed

text \<open>
  Where every shift of a packet is defined, the button mask keeps its frame. If the mask
  before the packet is a value and every button channel that matches the packet and
  passes the interpreter's usage gate has a usage code of at most 32 (an index below
  32), the mask after the packet is a value, every bit that is not the bit of a button
  channel matching the packet has its prior value, and with no matching button channel
  the mask is unchanged. The example after it runs two packets: the first sets the bit
  of button 3, the second carries no button channel and leaves it set.
\<close>

lemma button_state_frame:
  assumes "buttonState iv = Some w"
    and "\<forall>e. HIDElement e \<in> set (mouseElements iv) \<and> getReportID e = rid
             \<and> getTimeStamp e = ts \<and> getUsagePage e = kHIDPage_Button
             \<and> kHIDUsage_Button_1 \<le> getUsage e \<and> getUsage e \<le> kHIDUsage_Button_255
           \<longrightarrow> getUsage e \<le> 32"
  shows "\<exists>w'. buttonState (fst (handleMouseReport iv ts rid)) = Some w'
     \<and> (\<forall>i. (\<forall>e. HIDElement e \<in> set (mouseElements iv) \<and> getReportID e = rid
                  \<and> getTimeStamp e = ts \<and> getUsagePage e = kHIDPage_Button
                \<longrightarrow> unat (getUsage e - kHIDUsage_Button_1) \<noteq> i)
            \<longrightarrow> bit w' i = bit w i)
     \<and> ((\<forall>e. HIDElement e \<in> set (mouseElements iv) \<and> getReportID e = rid
              \<and> getTimeStamp e = ts \<longrightarrow> getUsagePage e \<noteq> kHIDPage_Button)
          \<longrightarrow> w' = w)"
proof -
  from handleMouseReport_loop_buttons_defined [OF assms(2)]
  obtain w' where w': "snd (handleMouseReport_loop ts rid (mouseElements iv)
      (\<lparr>dX = 0, dY = 0, scrollVert = 0\<rparr>, Some w)) = Some w'"
    by blast
  from handleMouseReport_loop_buttons_Some [OF w']
  have frame: "\<forall>i. (\<forall>e. HIDElement e \<in> set (mouseElements iv) \<and> getReportID e = rid
                  \<and> getTimeStamp e = ts \<and> getUsagePage e = kHIDPage_Button
                \<longrightarrow> unat (getUsage e - kHIDUsage_Button_1) \<noteq> i)
            \<longrightarrow> bit w' i = bit w i"
    by simp
  have same: "w' = w"
    if "\<forall>e. HIDElement e \<in> set (mouseElements iv) \<and> getReportID e = rid
              \<and> getTimeStamp e = ts \<longrightarrow> getUsagePage e \<noteq> kHIDPage_Button"
    using handleMouseReport_loop_buttons_unchanged [OF that,
        of "\<lparr>dX = 0, dY = 0, scrollVert = 0\<rparr>" "Some w"] w'
    by simp
  from w' assms(1) have "buttonState (fst (handleMouseReport iv ts rid)) = Some w'"
    by (simp add: handleMouseReport_eq)
  with frame same show ?thesis by blast
qed

lemma button_state_frame_example:
  "buttonState (fst (handleMouseReport
      \<lparr>mouseElements = [HIDElement (element kIOHIDElementTypeInput_Button 0x09 3 1 100 1),
                        HIDElement (element kIOHIDElementTypeInput_Misc 0x01 0x30 1 100 4)],
       buttonState = Some 0\<rparr> 100 1)) = Some 4
   \<and> bit (4 :: u32) 2
   \<and> buttonState (fst (handleMouseReport
      \<lparr>mouseElements = [HIDElement (element kIOHIDElementTypeInput_Button 0x09 3 1 100 1),
                        HIDElement (element kIOHIDElementTypeInput_Misc 0x01 0x30 1 200 7)],
       buttonState = Some 4\<rparr> 200 1)) = Some 4"
proof -
  let ?iv2 = "\<lparr>mouseElements =
      [HIDElement (element kIOHIDElementTypeInput_Button 0x09 3 1 100 1),
       HIDElement (element kIOHIDElementTypeInput_Misc 0x01 0x30 1 200 7)],
    buttonState = Some (4 :: u32)\<rparr>"
  have first: "buttonState (fst (handleMouseReport
      \<lparr>mouseElements = [HIDElement (element kIOHIDElementTypeInput_Button 0x09 3 1 100 1),
                        HIDElement (element kIOHIDElementTypeInput_Misc 0x01 0x30 1 100 4)],
       buttonState = Some 0\<rparr> 100 1)) = Some 4"
    by (simp add: report_eval)
  have b: "buttonState ?iv2 = Some 4"
    by simp
  have small: "\<forall>e. HIDElement e \<in> set (mouseElements ?iv2) \<and> getReportID e = 1
             \<and> getTimeStamp e = 200 \<and> getUsagePage e = kHIDPage_Button
             \<and> kHIDUsage_Button_1 \<le> getUsage e \<and> getUsage e \<le> kHIDUsage_Button_255
           \<longrightarrow> getUsage e \<le> 32"
    by (auto simp: element_def hid_constants)
  have none: "\<forall>e. HIDElement e \<in> set (mouseElements ?iv2) \<and> getReportID e = 1
              \<and> getTimeStamp e = 200 \<longrightarrow> getUsagePage e \<noteq> kHIDPage_Button"
    by (auto simp: element_def hid_constants)
  from button_state_frame [OF b small] none
  have "buttonState (fst (handleMouseReport ?iv2 200 1)) = Some 4"
    by auto
  with first show ?thesis by simp
qed


text \<open>
  C8. The interpreter passes \<open>usage - kHIDUsage_Button_1\<close> to \<open>setButtonState\<close> for every
  usage code from the first to the 255th button, with no check against the width of the
  mask. A button channel with a usage code above 32 and at most 255 is classified, its
  index is 32 or more, and for a packet it matches the shift \<open>1 << index\<close> has no defined
  result: \<open>setButtonState\<close> yields no defined mask, and neither does the whole call.
\<close>

theorem button_index_unbounded:
  assumes "getType e \<noteq> kIOHIDElementTypeCollection"
    and "getUsagePage e = kHIDPage_Button"
    and "32 < getUsage e" and "getUsage e \<le> kHIDUsage_Button_255"
    and "getReportID e = rid" and "getTimeStamp e = ts"
  shows "isMouseElement (HIDElement e)
     \<and> 32 \<le> getUsage e - kHIDUsage_Button_1
     \<and> shl_int 1 (getUsage e - kHIDUsage_Button_1) = None
     \<and> handleMouseReport_step ts rid (loc, bs) (HIDElement e)
         = (loc, setButtonState bs (getUsage e - kHIDUsage_Button_1) (getValue e))
     \<and> setButtonState bs (getUsage e - kHIDUsage_Button_1) (getValue e) = None
     \<and> (HIDElement e \<in> set (mouseElements iv) \<longrightarrow>
          buttonState (fst (handleMouseReport iv ts rid)) = None)"
proof -
  from assms(3) have nz: "getUsage e \<noteq> 0" by auto
  from assms(3) have ge: "kHIDUsage_Button_1 \<le> getUsage e"
    by (simp add: kHIDUsage_Button_1_def word_le_nat_alt word_less_nat_alt)
  have cls: "isMouseElement (HIDElement e)"
    using assms(1,2) nz by (simp add: isMouseElement_HIDElement)
  have big: "32 \<le> getUsage e - kHIDUsage_Button_1"
    and nlt: "\<not> getUsage e - kHIDUsage_Button_1 < 32"
    using assms(3) by (rule button_index_large)+
  have shl: "shl_int 1 (getUsage e - kHIDUsage_Button_1) = None"
    using nlt by (simp add: shl_int_def)
  have step: "handleMouseReport_step ts rid (l, b) (HIDElement e)
         = (l, setButtonState b (getUsage e - kHIDUsage_Button_1) (getValue e))" for l b
    using assms(2,4,5,6) ge
    by (simp add: handleMouseReport_step_HIDElement kHIDPage_Button_def
        kHIDPage_GenericDesktop_def)
  have undef: "setButtonState b (getUsage e - kHIDUsage_Button_1) (getValue e) = None" for b
    using nlt by (rule setButtonState_undefined)
  have whole: "buttonState (fst (handleMouseReport iv ts rid)) = None"
    if "HIDElement e \<in> set (mouseElements iv)"
  proof -
    from that obtain xs ys where split: "mouseElements iv = xs @ HIDElement e # ys"
      by (auto dest: split_list)
    obtain l1 b1 where pre: "handleMouseReport_loop ts rid xs
        (\<lparr>dX = 0, dY = 0, scrollVert = 0\<rparr>, buttonState iv) = (l1, b1)"
      by (cases "handleMouseReport_loop ts rid xs
        (\<lparr>dX = 0, dY = 0, scrollVert = 0\<rparr>, buttonState iv)") auto
    show ?thesis
      by (simp add: handleMouseReport_eq split handleMouseReport_loop_append pre step undef
          handleMouseReport_loop_None)
  qed
  from cls big shl step undef whole show ?thesis by blast
qed

theorem button_index_unbounded_witness:
  "getType (element kIOHIDElementTypeInput_Button 0x09 40 1 100 1) \<noteq> kIOHIDElementTypeCollection
   \<and> getUsagePage (element kIOHIDElementTypeInput_Button 0x09 40 1 100 1) = kHIDPage_Button
   \<and> 32 < getUsage (element kIOHIDElementTypeInput_Button 0x09 40 1 100 1)
   \<and> getUsage (element kIOHIDElementTypeInput_Button 0x09 40 1 100 1) \<le> kHIDUsage_Button_255
   \<and> getReportID (element kIOHIDElementTypeInput_Button 0x09 40 1 100 1) = 1
   \<and> getTimeStamp (element kIOHIDElementTypeInput_Button 0x09 40 1 100 1) = 100
   \<and> isMouseElement (HIDElement (element kIOHIDElementTypeInput_Button 0x09 40 1 100 1))
   \<and> 32 \<le> getUsage (element kIOHIDElementTypeInput_Button 0x09 40 1 100 1)
            - kHIDUsage_Button_1
   \<and> setButtonState (Some 0)
        (getUsage (element kIOHIDElementTypeInput_Button 0x09 40 1 100 1) - kHIDUsage_Button_1)
        (getValue (element kIOHIDElementTypeInput_Button 0x09 40 1 100 1)) = None
   \<and> buttonState (fst (handleMouseReport
        \<lparr>mouseElements = [HIDElement (element kIOHIDElementTypeInput_Button 0x09 40 1 100 1)],
         buttonState = Some 0\<rparr> 100 1)) = None"
proof -
  let ?e = "element kIOHIDElementTypeInput_Button 0x09 40 1 100 1"
  let ?iv = "\<lparr>mouseElements = [HIDElement ?e], buttonState = Some (0 :: u32)\<rparr>"
  have h: "getType ?e \<noteq> kIOHIDElementTypeCollection" "getUsagePage ?e = kHIDPage_Button"
    "32 < getUsage ?e" "getUsage ?e \<le> kHIDUsage_Button_255"
    "getReportID ?e = 1" "getTimeStamp ?e = 100"
    by (simp_all add: element_def hid_constants)
  have m: "HIDElement ?e \<in> set (mouseElements ?iv)"
    by simp
  from button_index_unbounded [where bs = "Some 0" and iv = ?iv, OF h] h m
  show ?thesis by blast
qed

text \<open>
  C9. A classified channel of the button page whose usage code is outside the range from
  the first to the 255th button is ignored by the interpreter: the iteration changes
  nothing, and the events and the button mask of the whole call are those of the call
  without that channel, also when the channel matches the packet.
\<close>

theorem button_usage_gate:
  assumes "isMouseElement (HIDElement e)"
    and "getUsagePage e = kHIDPage_Button"
    and "getUsage e < kHIDUsage_Button_1 \<or> kHIDUsage_Button_255 < getUsage e"
  shows "handleMouseReport_step ts rid st (HIDElement e) = st
     \<and> snd (handleMouseReport (iv\<lparr>mouseElements := xs @ HIDElement e # ys\<rparr>) ts rid)
         = snd (handleMouseReport (iv\<lparr>mouseElements := xs @ ys\<rparr>) ts rid)
     \<and> buttonState (fst (handleMouseReport (iv\<lparr>mouseElements := xs @ HIDElement e # ys\<rparr>) ts rid))
         = buttonState (fst (handleMouseReport (iv\<lparr>mouseElements := xs @ ys\<rparr>) ts rid))"
proof -
  have skip: "handleMouseReport_step ts rid s (HIDElement e) = s" for s
    using assms(2,3)
    by (cases s) (auto simp: handleMouseReport_step_HIDElement kHIDPage_Button_def
        kHIDPage_GenericDesktop_def)
  have "handleMouseReport_loop ts rid (xs @ HIDElement e # ys) s
      = handleMouseReport_loop ts rid (xs @ ys) s" for s
    by (simp add: handleMouseReport_loop_append skip)
  with skip show ?thesis
    by (simp add: handleMouseReport_eq)
qed

theorem button_usage_gate_witness:
  "isMouseElement (HIDElement (element kIOHIDElementTypeInput_Button 0x09 256 1 100 1))
   \<and> getUsagePage (element kIOHIDElementTypeInput_Button 0x09 256 1 100 1) = kHIDPage_Button
   \<and> kHIDUsage_Button_255 < getUsage (element kIOHIDElementTypeInput_Button 0x09 256 1 100 1)
   \<and> getReportID (element kIOHIDElementTypeInput_Button 0x09 256 1 100 1) = 1
   \<and> getTimeStamp (element kIOHIDElementTypeInput_Button 0x09 256 1 100 1) = 100
   \<and> buttonState (fst (handleMouseReport
        (init_ivars\<lparr>mouseElements :=
           [] @ HIDElement (element kIOHIDElementTypeInput_Button 0x09 256 1 100 1) # []\<rparr>)
        100 1)) = Some 0"
proof -
  let ?e = "element kIOHIDElementTypeInput_Button 0x09 256 1 100 1"
  have c: "isMouseElement (HIDElement ?e)"
    by (simp add: isMouseElement_HIDElement element_def hid_constants)
  have p: "getUsagePage ?e = kHIDPage_Button"
    by (simp add: element_def hid_constants)
  have u: "kHIDUsage_Button_255 < getUsage ?e"
    by (simp add: element_def hid_constants)
  then have g: "getUsage ?e < kHIDUsage_Button_1 \<or> kHIDUsage_Button_255 < getUsage ?e"
    by simp
  have m: "getReportID ?e = 1" "getTimeStamp ?e = 100"
    by (simp_all add: element_def)
  have r: "buttonState (fst (handleMouseReport (init_ivars\<lparr>mouseElements := [] @ []\<rparr>) 100 1))
      = Some 0"
    by (simp add: report_eval)
  from button_usage_gate [where iv = init_ivars and xs = "[]" and ys = "[]"
      and ts = 100 and rid = 1, OF c p g] r c p u m
  show ?thesis by simp
qed

text \<open>
  C10. The deltas are overwritten, not accumulated: when a channel of the generic desktop
  page matches the packet and no later matching channel of that page has its usage code,
  the dispatched delta of its axis is the scaled value of that channel alone, whatever
  the channels before it hold. With two matching X channels of values 1 and 2 the
  dispatched \<open>dx\<close> is 65536, not the sum 98304.
\<close>

theorem axis_delta_overwritten:
  assumes "mouseElements iv = xs @ HIDElement e # ys"
    and "getReportID e = rid" and "getTimeStamp e = ts"
    and "getUsagePage e = kHIDPage_GenericDesktop"
    and "\<forall>e'. HIDElement e' \<in> set ys \<and> getReportID e' = rid \<and> getTimeStamp e' = ts
             \<and> getUsagePage e' = kHIDPage_GenericDesktop \<longrightarrow> getUsage e' \<noteq> getUsage e"
  shows "\<exists>p s. snd (handleMouseReport iv ts rid)
                 = [RelativePointerEvent p, RelativeScrollWheelEvent s]
     \<and> (getUsage e = kHIDUsage_GD_X \<longrightarrow> p_dx p = push_bit 15 (getValue e))
     \<and> (getUsage e = kHIDUsage_GD_Y \<longrightarrow> p_dy p = push_bit 15 (getValue e))
     \<and> (getUsage e = kHIDUsage_GD_Wheel \<longrightarrow>
          s_dy s = IOFixedMultiply (push_bit 16 (getValue e)) (push_bit 16 (- 3)))"
proof -
  obtain l1 b1 where pre: "handleMouseReport_loop ts rid xs
        (\<lparr>dX = 0, dY = 0, scrollVert = 0\<rparr>, buttonState iv) = (l1, b1)"
    by (cases "handleMouseReport_loop ts rid xs
        (\<lparr>dX = 0, dY = 0, scrollVert = 0\<rparr>, buttonState iv)") auto
  obtain l2 b2 where step: "handleMouseReport_step ts rid (l1, b1) (HIDElement e) = (l2, b2)"
    by (cases "handleMouseReport_step ts rid (l1, b1) (HIDElement e)") auto
  have distinct: "kHIDUsage_GD_X \<noteq> kHIDUsage_GD_Y" "kHIDUsage_GD_X \<noteq> kHIDUsage_GD_Wheel"
    "kHIDUsage_GD_Y \<noteq> kHIDUsage_GD_Wheel"
    by (simp_all add: kHIDUsage_GD_X_def kHIDUsage_GD_Y_def kHIDUsage_GD_Wheel_def)
  from step assms(2-4) distinct
  have set: "(getUsage e = kHIDUsage_GD_X \<longrightarrow> dX l2 = push_bit 15 (getValue e))
     \<and> (getUsage e = kHIDUsage_GD_Y \<longrightarrow> dY l2 = push_bit 15 (getValue e))
     \<and> (getUsage e = kHIDUsage_GD_Wheel \<longrightarrow>
          scrollVert l2 = IOFixedMultiply (push_bit 16 (getValue e)) (push_bit 16 (- 3)))"
    by (auto simp: handleMouseReport_step_HIDElement)
  have whole: "handleMouseReport_loop ts rid (mouseElements iv)
        (\<lparr>dX = 0, dY = 0, scrollVert = 0\<rparr>, buttonState iv)
      = handleMouseReport_loop ts rid ys (l2, b2)"
    by (simp add: assms(1) handleMouseReport_loop_append pre step)
  from handleMouseReport_loop_axis_frame [OF assms(5), of l2 b2] set whole
  show ?thesis
    by (simp add: handleMouseReport_eq)
qed

theorem axis_delta_overwritten_witness:
  "getReportID (element kIOHIDElementTypeInput_Misc 0x01 0x30 1 100 2) = 1
   \<and> getTimeStamp (element kIOHIDElementTypeInput_Misc 0x01 0x30 1 100 2) = 100
   \<and> getUsagePage (element kIOHIDElementTypeInput_Misc 0x01 0x30 1 100 2)
       = kHIDPage_GenericDesktop
   \<and> getUsage (element kIOHIDElementTypeInput_Misc 0x01 0x30 1 100 2) = kHIDUsage_GD_X
   \<and> (\<exists>p s. snd (handleMouseReport
          \<lparr>mouseElements =
             [HIDElement (element kIOHIDElementTypeInput_Misc 0x01 0x30 1 100 1)]
             @ HIDElement (element kIOHIDElementTypeInput_Misc 0x01 0x30 1 100 2) # [],
           buttonState = Some 0\<rparr> 100 1)
         = [RelativePointerEvent p, RelativeScrollWheelEvent s]
       \<and> p_dx p = 65536)
   \<and> push_bit 15 (1 :: IOFixed) + push_bit 15 2 = 98304"
proof -
  let ?e = "element kIOHIDElementTypeInput_Misc 0x01 0x30 1 100 2"
  let ?xs = "[HIDElement (element kIOHIDElementTypeInput_Misc 0x01 0x30 1 100 1)]"
  let ?iv = "\<lparr>mouseElements = ?xs @ HIDElement ?e # [], buttonState = Some (0 :: u32)\<rparr>"
  have l: "mouseElements ?iv = ?xs @ HIDElement ?e # []"
    by simp
  have h: "getReportID ?e = 1" "getTimeStamp ?e = 100" "getUsagePage ?e = kHIDPage_GenericDesktop"
    by (simp_all add: element_def hid_constants)
  have u: "getUsage ?e = kHIDUsage_GD_X"
    by (simp add: element_def hid_constants)
  have v: "push_bit 15 (getValue ?e) = 65536"
    by (simp add: element_def)
  have y: "\<forall>e'. HIDElement e' \<in> set [] \<and> getReportID e' = 1 \<and> getTimeStamp e' = 100
             \<and> getUsagePage e' = kHIDPage_GenericDesktop \<longrightarrow> getUsage e' \<noteq> getUsage ?e"
    by simp
  from axis_delta_overwritten [OF l h y] u v
  have "\<exists>p s. snd (handleMouseReport ?iv 100 1)
         = [RelativePointerEvent p, RelativeScrollWheelEvent s] \<and> p_dx p = 65536"
    by auto
  moreover have "push_bit 15 (1 :: IOFixed) + push_bit 15 2 = 98304"
    by simp
  ultimately show ?thesis using h u by blast
qed

end
